theory Spec2Isabelle
  imports Main "HOL-Library.Sublist"
begin

section \<open>The values of packages/blocks/src/page-block/default/mouse-manager.ts\<close>

subsection \<open>DOM nodes, ranges and events\<close>

text \<open>
  The manager looks at a DOM node in four ways: \<^verbatim>\<open>instanceof HTMLElement\<close>,
  \<^verbatim>\<open>instanceof HTMLInputElement\<close>, \<^verbatim>\<open>tagName\<close> and \<^verbatim>\<open>className\<close>. A node is a record of
  exactly these, with an identity. \<^verbatim>\<open>HTMLInputElement\<close> is a subclass of \<^verbatim>\<open>HTMLElement\<close>.
\<close>

datatype dom_interface = TextNode | PlainElement | HTMLElement | HTMLInputElement

record node =
  node_id :: nat
  interface :: dom_interface
  tagName :: string
  className :: string

definition instanceof_HTMLElement :: "node \<Rightarrow> bool" where
  "instanceof_HTMLElement n = (interface n = HTMLElement \<or> interface n = HTMLInputElement)"

definition instanceof_HTMLInputElement :: "node \<Rightarrow> bool" where
  "instanceof_HTMLInputElement n = (interface n = HTMLInputElement)"

text \<open>\<^verbatim>\<open>String.prototype.includes\<close>: the argument occurs as a contiguous substring.\<close>

definition string_includes :: "string \<Rightarrow> string \<Rightarrow> bool" where
  "string_includes s sub = sublist sub s"

text \<open>A DOM \<^verbatim>\<open>Range\<close>: two boundary points, each a container and an offset.\<close>

record Range =
  startContainer :: node
  startOffset :: nat
  endContainer :: node
  endOffset :: nat

text \<open>
  The object literal \<^verbatim>\<open>{ x, y }\<close>. \<^verbatim>\<open>clientX\<close> and \<^verbatim>\<open>clientY\<close> of a mouse event are
  whole pixels, so the coordinates are integers and the arithmetic on them is exact.
\<close>

record point =
  point_x :: int
  point_y :: int

text \<open>
  \<^verbatim>\<open>new DOMRect(x, y, width, height)\<close> stores its four arguments; \<^verbatim>\<open>left\<close> and \<^verbatim>\<open>top\<close>
  are getters of the DOM, the smaller of the two edges on each axis.
\<close>

record DOMRect =
  rect_x :: int
  rect_y :: int
  rect_width :: int
  rect_height :: int

definition rect_left :: "DOMRect \<Rightarrow> int" where
  "rect_left r = min (rect_x r) (rect_x r + rect_width r)"

definition rect_top :: "DOMRect \<Rightarrow> int" where
  "rect_top r = min (rect_y r) (rect_y r + rect_height r)"

text \<open>
  A \<^verbatim>\<open>SelectionEvent\<close> as the manager reads it: \<^verbatim>\<open>e.raw.clientX\<close>, \<^verbatim>\<open>e.raw.clientY\<close>,
  \<^verbatim>\<open>e.raw.target\<close> and \<^verbatim>\<open>e.keys.shift\<close>.
\<close>

record SelectionEvent =
  clientX :: int
  clientY :: int
  target :: node
  shift :: bool

record BaseBlockModel =
  model_id :: nat
  flavour :: string

subsection \<open>The collaborators\<close>

text \<open>
  Everything the file imports or reads from the platform and that returns a value is a
  parameter: \<^verbatim>\<open>caretRangeFromPoint\<close> (the hit test, \<^verbatim>\<open>null\<close> is \<open>None\<close>), the \<^verbatim>\<open>cursor\<close>
  of \<^verbatim>\<open>window.getComputedStyle\<close>, the document order that \<^verbatim>\<open>Range.setStart\<close> consults
  (the root of a node's tree, and whether one boundary point in different nodes lies after
  another), \<^verbatim>\<open>store.root\<close>, \<^verbatim>\<open>lastChild()\<close> and \<^verbatim>\<open>getBlockElementByModel\<close>.
\<close>

record env =
  caretRangeFromPoint :: "int \<Rightarrow> int \<Rightarrow> Range option"
  cursor :: "node \<Rightarrow> string"
  rootOf :: "node \<Rightarrow> nat"
  treeAfter :: "node \<Rightarrow> nat \<Rightarrow> node \<Rightarrow> nat \<Rightarrow> bool"
  store_root :: "BaseBlockModel option"
  lastChild :: "BaseBlockModel \<Rightarrow> BaseBlockModel option"
  getBlockElementByModel :: "BaseBlockModel \<Rightarrow> node"

text \<open>
  The calls that act on the page are recorded, in order: \<^verbatim>\<open>resetNativeSeletion(range)\<close>,
  \<^verbatim>\<open>this._slots.updateSelectionRect.emit(rect)\<close> and \<^verbatim>\<open>focusRichTextByOffset(element, x)\<close>.
\<close>

datatype effect =
    ResetNativeSeletion "Range option"
  | UpdateSelectionRect "DOMRect option"
  | FocusRichTextByOffset node int

fun is_UpdateSelectionRect :: "effect \<Rightarrow> bool" where
  "is_UpdateSelectionRect (UpdateSelectionRect _) = True"
| "is_UpdateSelectionRect _ = False"

fun applies_range :: "effect \<Rightarrow> bool" where
  "applies_range (ResetNativeSeletion (Some _)) = True"
| "applies_range _ = False"

fun is_FocusRichTextByOffset :: "effect \<Rightarrow> bool" where
  "is_FocusRichTextByOffset (FocusRichTextByOffset _ _) = True"
| "is_FocusRichTextByOffset _ = False"

subsection \<open>The DOM's \<^verbatim>\<open>Range.setStart\<close>\<close>

text \<open>
  A boundary point is after another one of the same node when its offset is greater; for two
  different nodes the document order decides. \<^verbatim>\<open>setStart(node, offset)\<close> is the DOM's
  ``set the start'': when the new point lies in another tree than the range, or after the
  range's end, the end moves to the new point as well; then the start is the new point. Its
  two exceptions (a doctype node, an offset beyond the node's length) cannot arise here: the
  point passed is the start of another range.
\<close>

definition isAfter :: "env \<Rightarrow> node \<Rightarrow> nat \<Rightarrow> node \<Rightarrow> nat \<Rightarrow> bool" where
  "isAfter env n1 o1 n2 o2 = (if n1 = n2 then o2 < o1 else treeAfter env n1 o1 n2 o2)"

definition setStart :: "env \<Rightarrow> Range \<Rightarrow> node \<Rightarrow> nat \<Rightarrow> Range" where
  "setStart env r n off =
     (if rootOf env (startContainer r) \<noteq> rootOf env n
         \<or> isAfter env n off (endContainer r) (endOffset r)
      then \<lparr>startContainer = n, startOffset = off, endContainer = n, endOffset = off\<rparr>
      else r\<lparr>startContainer := n, startOffset := off\<rparr>)"

section \<open>The functions of the file\<close>

subsection \<open>Classification and geometry\<close>

definition isBlankAreaBetweenBlocks :: "node \<Rightarrow> bool" where
  "isBlankAreaBetweenBlocks container =
     (if \<not> instanceof_HTMLElement container then False
      else string_includes (className container) ''affine-paragraph-block-container'')"

definition isBlankAreaAfterLastBlock :: "node \<Rightarrow> bool" where
  "isBlankAreaAfterLastBlock container = (tagName container = ''GROUP-BLOCK'')"

definition isBlankAreaBeforeFirstBlock :: "node \<Rightarrow> bool" where
  "isBlankAreaBeforeFirstBlock container =
     (if \<not> instanceof_HTMLElement container then False
      else string_includes (className container) ''affine-group-block-container'')"

definition isBlankArea :: "env \<Rightarrow> SelectionEvent \<Rightarrow> bool" where
  "isBlankArea env e = (cursor env (target e) = ''default'')"

datatype PageSelectionType = Native | Block | NoneSel

definition createSelectionRect :: "point \<Rightarrow> point \<Rightarrow> DOMRect" where
  "createSelectionRect current start =
     (let width = \<bar>point_x current - point_x start\<bar>;
          height = \<bar>point_y current - point_y start\<bar>;
          left = min (point_x current) (point_x start);
          upper = min (point_y current) (point_y start)
      in \<lparr>rect_x = left, rect_y = upper, rect_width = width, rect_height = height\<rparr>)"

subsection \<open>\<^verbatim>\<open>PageSelection\<close>\<close>

record PageSelection =
  type :: PageSelectionType
  startRange :: "Range option"
  startPoint :: "point option"

text \<open>\<^verbatim>\<open>new PageSelection('none')\<close>, the value of \<^verbatim>\<open>_selection\<close> when the manager is built.\<close>

definition new_PageSelection :: "PageSelectionType \<Rightarrow> PageSelection" where
  "new_PageSelection t = \<lparr>type = t, startRange = None, startPoint = None\<rparr>"

definition resetStartRange :: "env \<Rightarrow> SelectionEvent \<Rightarrow> PageSelection \<Rightarrow> PageSelection" where
  "resetStartRange env e s =
     s\<lparr>startRange := caretRangeFromPoint env (clientX e) (clientY e),
       startPoint := Some \<lparr>point_x = clientX e, point_y = clientY e\<rparr>\<rparr>"

definition clear :: "PageSelection \<Rightarrow> PageSelection" where
  "clear s = s\<lparr>startRange := None, startPoint := None\<rparr>"

subsection \<open>How a handler ends\<close>

text \<open>
  A handler either returns or throws; \<^verbatim>\<open>assertExists\<close> is the only thing here that throws.
  Either way it leaves a selection state behind and has made some calls. A throw leaves the
  handler at once, with the state as it is at that moment.
\<close>

datatype error = AssertExistsError

datatype completion = Normal | Throw error

record outcome =
  completion :: completion
  selection :: PageSelection
  emitted :: "effect list"

definition returned :: "PageSelection \<Rightarrow> outcome" where
  "returned s = \<lparr>completion = Normal, selection = s, emitted = []\<rparr>"

definition thrown :: "error \<Rightarrow> PageSelection \<Rightarrow> outcome" where
  "thrown err s = \<lparr>completion = Throw err, selection = s, emitted = []\<rparr>"

definition andThen :: "outcome \<Rightarrow> (PageSelection \<Rightarrow> outcome) \<Rightarrow> outcome" where
  "andThen r f =
     (case completion r of
        Throw err \<Rightarrow> r
      | Normal \<Rightarrow> (let r' = f (selection r) in r'\<lparr>emitted := emitted r @ emitted r'\<rparr>))"

subsection \<open>\<^verbatim>\<open>DefaultMouseManager\<close>\<close>

text \<open>
  The only field of the manager that changes is \<^verbatim>\<open>_selection\<close>, so a handler maps the
  selection state before the event to an outcome. The private methods keep their names
  without the leading underscore.

  In \<^verbatim>\<open>_onContainerClick\<close>, \<^verbatim>\<open>range?.startContainer\<close> is a \<^verbatim>\<open>Node\<close> exactly when the hit test
  returned a range, so \<^verbatim>\<open>resetNativeSeletion(range)\<close> is called for every range found, and
  without a range the test \<^verbatim>\<open>instanceof HTMLElement\<close> fails and the handler returns.
\<close>

definition onBlockDragStart :: "env \<Rightarrow> SelectionEvent \<Rightarrow> PageSelection \<Rightarrow> outcome" where
  "onBlockDragStart env e s =
     \<lparr>completion = Normal,
      selection = resetStartRange env e (s\<lparr>type := Block\<rparr>),
      emitted = [ResetNativeSeletion None]\<rparr>"

definition onBlockDragMove :: "env \<Rightarrow> SelectionEvent \<Rightarrow> PageSelection \<Rightarrow> outcome" where
  "onBlockDragMove env e s =
     (case startPoint s of
        None \<Rightarrow> thrown AssertExistsError s
      | Some start \<Rightarrow>
          (let current = \<lparr>point_x = clientX e, point_y = clientY e\<rparr>;
               selectionRect = createSelectionRect current start
           in \<lparr>completion = Normal, selection = s,
               emitted = [UpdateSelectionRect (Some selectionRect)]\<rparr>))"

definition onBlockDragEnd :: "env \<Rightarrow> SelectionEvent \<Rightarrow> PageSelection \<Rightarrow> outcome" where
  "onBlockDragEnd env e s =
     \<lparr>completion = Normal, selection = clear s, emitted = [UpdateSelectionRect None]\<rparr>"

definition onNativeDragStart :: "env \<Rightarrow> SelectionEvent \<Rightarrow> PageSelection \<Rightarrow> outcome" where
  "onNativeDragStart env e s = returned (s\<lparr>type := Native\<rparr>)"

definition onNativeDragMove :: "env \<Rightarrow> SelectionEvent \<Rightarrow> PageSelection \<Rightarrow> outcome" where
  "onNativeDragMove env e s =
     (case startRange s of
        None \<Rightarrow> thrown AssertExistsError s
      | Some anchor \<Rightarrow>
          (let currentRange =
                 (case caretRangeFromPoint env (clientX e) (clientY e) of
                    None \<Rightarrow> None
                  | Some r \<Rightarrow> Some (setStart env r (startContainer anchor) (startOffset anchor)))
           in \<lparr>completion = Normal, selection = s,
               emitted = [ResetNativeSeletion currentRange]\<rparr>))"

definition onNativeDragEnd :: "env \<Rightarrow> SelectionEvent \<Rightarrow> PageSelection \<Rightarrow> outcome" where
  "onNativeDragEnd env e s = returned s"

definition onContainerDragStart :: "env \<Rightarrow> SelectionEvent \<Rightarrow> PageSelection \<Rightarrow> outcome" where
  "onContainerDragStart env e s =
     (let s1 = resetStartRange env e s
      in if isBlankArea env e then onBlockDragStart env e s1 else onNativeDragStart env e s1)"

definition onContainerDragMove :: "env \<Rightarrow> SelectionEvent \<Rightarrow> PageSelection \<Rightarrow> outcome" where
  "onContainerDragMove env e s =
     (if type s = Native then onNativeDragMove env e s
      else if type s = Block then onBlockDragMove env e s
      else returned s)"

definition onContainerDragEnd :: "env \<Rightarrow> SelectionEvent \<Rightarrow> PageSelection \<Rightarrow> outcome" where
  "onContainerDragEnd env e s =
     andThen
       (if type s = Native then onNativeDragEnd env e s
        else if type s = Block then onBlockDragEnd env e s
        else returned s)
       (\<lambda>s'. returned (clear (s'\<lparr>type := NoneSel\<rparr>)))"

definition onContainerClick :: "env \<Rightarrow> SelectionEvent \<Rightarrow> PageSelection \<Rightarrow> outcome" where
  "onContainerClick env e s =
     (let s0 = s\<lparr>type := NoneSel\<rparr>
      in if tagName (target e) = ''DEBUG-MENU'' then returned s0
         else if instanceof_HTMLInputElement (target e) then returned s0
         else if shift e then returned s0
         else
           (case caretRangeFromPoint env (clientX e) (clientY e) of
              None \<Rightarrow> returned s0
            | Some rng \<Rightarrow>
                (let container = startContainer rng;
                     applied = [ResetNativeSeletion (Some rng)]
                 in if \<not> instanceof_HTMLElement container
                    then \<lparr>completion = Normal, selection = s0, emitted = applied\<rparr>
                    else if isBlankAreaBetweenBlocks container
                            \<or> isBlankAreaBeforeFirstBlock container
                    then \<lparr>completion = Normal, selection = s0,
                          emitted = applied @ [FocusRichTextByOffset container (clientX e)]\<rparr>
                    else if isBlankAreaAfterLastBlock container
                    then
                      (case (case store_root env of None \<Rightarrow> None | Some root \<Rightarrow> lastChild env root) of
                         None \<Rightarrow> \<lparr>completion = Normal, selection = s0, emitted = applied\<rparr>
                       | Some child \<Rightarrow>
                           if flavour child = ''paragraph'' \<or> flavour child = ''list''
                           then (let block = getBlockElementByModel env child
                                 in \<lparr>completion = Normal, selection = s0,
                                     emitted = applied @ [FocusRichTextByOffset block (clientX e)]\<rparr>)
                           else \<lparr>completion = Normal, selection = s0, emitted = applied\<rparr>)
                    else \<lparr>completion = Normal, selection = s0, emitted = applied\<rparr>)))"

definition onContainerDblClick :: "env \<Rightarrow> SelectionEvent \<Rightarrow> PageSelection \<Rightarrow> outcome" where
  "onContainerDblClick env e s = returned s"

definition onContainerMouseMove :: "env \<Rightarrow> SelectionEvent \<Rightarrow> PageSelection \<Rightarrow> outcome" where
  "onContainerMouseMove env e s = returned s"

definition onContainerMouseOut :: "env \<Rightarrow> SelectionEvent \<Rightarrow> PageSelection \<Rightarrow> outcome" where
  "onContainerMouseOut env e s = returned s"

subsection \<open>Event sequences\<close>

text \<open>
  \<^verbatim>\<open>initMouseEventHandlers\<close> registers the seven handlers in this order. An exception of a
  handler goes to the caller, the platform's event dispatch; the manager keeps the state the
  handler left and receives the next event.
\<close>

datatype pointer_event =
    DragStart SelectionEvent
  | DragMove SelectionEvent
  | DragEnd SelectionEvent
  | Click SelectionEvent
  | DblClick SelectionEvent
  | MouseMove SelectionEvent
  | MouseOut SelectionEvent

fun dispatch :: "env \<Rightarrow> pointer_event \<Rightarrow> PageSelection \<Rightarrow> outcome" where
  "dispatch env (DragStart e) s = onContainerDragStart env e s"
| "dispatch env (DragMove e) s = onContainerDragMove env e s"
| "dispatch env (DragEnd e) s = onContainerDragEnd env e s"
| "dispatch env (Click e) s = onContainerClick env e s"
| "dispatch env (DblClick e) s = onContainerDblClick env e s"
| "dispatch env (MouseMove e) s = onContainerMouseMove env e s"
| "dispatch env (MouseOut e) s = onContainerMouseOut env e s"

text \<open>The state after a sequence of events, and all the calls made on the way.\<close>

fun run :: "env \<Rightarrow> pointer_event list \<Rightarrow> PageSelection \<Rightarrow> PageSelection \<times> effect list" where
  "run env [] s = (s, [])"
| "run env (ev # evs) s =
     (let r = dispatch env ev s; (s', out) = run env evs (selection r)
      in (s', emitted r @ out))"

text \<open>One drag gesture: a start, any number of moves, an end.\<close>

definition drag :: "SelectionEvent \<Rightarrow> SelectionEvent list \<Rightarrow> SelectionEvent \<Rightarrow> pointer_event list" where
  "drag s ms e = DragStart s # map DragMove ms @ [DragEnd e]"

text \<open>
  The order in which the pointer events arrive: a drag is a start, then moves, then an end,
  and a click never falls inside a drag. The first argument is the start event of the drag
  in progress, if there is one. Double clicks and hover events may come at any time.
\<close>

fun follows_protocol :: "SelectionEvent option \<Rightarrow> pointer_event list \<Rightarrow> bool" where
  "follows_protocol d [] = True"
| "follows_protocol d (DragStart e # evs) = (d = None \<and> follows_protocol (Some e) evs)"
| "follows_protocol d (DragMove e # evs) = (d \<noteq> None \<and> follows_protocol d evs)"
| "follows_protocol d (DragEnd e # evs) = (d \<noteq> None \<and> follows_protocol None evs)"
| "follows_protocol d (Click e # evs) = (d = None \<and> follows_protocol d evs)"
| "follows_protocol d (_ # evs) = follows_protocol d evs"

text \<open>The start event of the drag that is in progress after a sequence of events.\<close>

fun open_drag :: "SelectionEvent option \<Rightarrow> pointer_event list \<Rightarrow> SelectionEvent option" where
  "open_drag d [] = d"
| "open_drag d (DragStart e # evs) = open_drag (Some e) evs"
| "open_drag d (DragEnd e # evs) = open_drag None evs"
| "open_drag d (_ # evs) = open_drag d evs"

definition mode_of_start :: "env \<Rightarrow> SelectionEvent \<Rightarrow> PageSelectionType" where
  "mode_of_start env e = (if isBlankArea env e then Block else Native)"

definition tracks :: "env \<Rightarrow> SelectionEvent option \<Rightarrow> PageSelection \<Rightarrow> bool" where
  "tracks env d s =
     (case d of
        None \<Rightarrow> s = new_PageSelection NoneSel
      | Some st \<Rightarrow> type s = mode_of_start env st)"

section \<open>Two small pages to evaluate the handlers on\<close>

text \<open>
  A collapsed range, as the hit test returns it; a text node, the rich-text element of a
  paragraph and a \<^verbatim>\<open>group-block\<close> element.
\<close>

definition collapsed :: "node \<Rightarrow> nat \<Rightarrow> Range" where
  "collapsed n off = \<lparr>startContainer = n, startOffset = off, endContainer = n, endOffset = off\<rparr>"

definition example_text :: node where
  "example_text = \<lparr>node_id = 1, interface = TextNode, tagName = [], className = []\<rparr>"

definition example_paragraph :: node where
  "example_paragraph =
     \<lparr>node_id = 2, interface = HTMLElement, tagName = ''PARAGRAPH-BLOCK'', className = []\<rparr>"

definition example_group :: node where
  "example_group =
     \<lparr>node_id = 3, interface = HTMLElement, tagName = ''GROUP-BLOCK'', className = []\<rparr>"

definition mouse :: "int \<Rightarrow> int \<Rightarrow> node \<Rightarrow> SelectionEvent" where
  "mouse px py t = \<lparr>clientX = px, clientY = py, target = t, shift = False\<rparr>"

text \<open>
  A line of text: the pointer at \<open>x \<ge> 0\<close> is over the character at offset \<open>x\<close> of the text
  node, and left of the line the hit test finds nothing. The cursor is the text cursor. The
  target of an event over the line is the paragraph's element.
\<close>

definition example_content_env :: env where
  "example_content_env =
     \<lparr>caretRangeFromPoint = (\<lambda>px py. if 0 \<le> px then Some (collapsed example_text (nat px)) else None),
      cursor = (\<lambda>n. ''text''),
      rootOf = (\<lambda>n. 0),
      treeAfter = (\<lambda>n1 o1 n2 o2. False),
      store_root = None,
      lastChild = (\<lambda>m. None),
      getBlockElementByModel = (\<lambda>m. example_paragraph)\<rparr>"

text \<open>
  The space below the last block: the default cursor, the hit test answers with the
  \<^verbatim>\<open>group-block\<close> element. The last child of the root is a group in the first page and a
  paragraph in the second.
\<close>

definition example_blank_env :: env where
  "example_blank_env =
     \<lparr>caretRangeFromPoint = (\<lambda>px py. Some (collapsed example_group 0)),
      cursor = (\<lambda>n. ''default''),
      rootOf = (\<lambda>n. 0),
      treeAfter = (\<lambda>n1 o1 n2 o2. False),
      store_root = Some \<lparr>model_id = 0, flavour = ''page''\<rparr>,
      lastChild = (\<lambda>m. Some \<lparr>model_id = 1, flavour = ''group''\<rparr>),
      getBlockElementByModel = (\<lambda>m. example_paragraph)\<rparr>"

definition example_paragraph_env :: env where
  "example_paragraph_env =
     example_blank_env\<lparr>lastChild := (\<lambda>m. Some \<lparr>model_id = 2, flavour = ''paragraph''\<rparr>)\<rparr>"

text \<open>Two drags over the line of text, the second still open; a drag start over the blank area.\<close>

definition example_events :: "pointer_event list" where
  "example_events =
     drag (mouse 10 10 example_paragraph) [mouse 50 80 example_paragraph] (mouse 50 80 example_paragraph)
     @ [MouseMove (mouse 4 4 example_paragraph), DragStart (mouse 5 5 example_paragraph),
        DragMove (mouse 7 5 example_paragraph)]"

definition example_block_state :: PageSelection where
  "example_block_state =
     selection (onContainerDragStart example_blank_env (mouse 10 10 example_group)
                  (new_PageSelection NoneSel))"

text \<open>The state after a drag start over the text at \<open>(10, 10)\<close>: both anchors captured.\<close>

definition example_captured :: PageSelection where
  "example_captured =
     selection (onContainerDragStart example_content_env (mouse 10 10 example_paragraph)
                  (new_PageSelection NoneSel))"

text \<open>A click with the shift key held.\<close>

definition shift_click :: SelectionEvent where
  "shift_click = (mouse 20 10 example_paragraph)\<lparr>shift := True\<rparr>"

text \<open>
  The state after a drag start left of the line of text, where the hit test finds nothing:
  native mode, no anchor range.
\<close>

definition example_unanchored :: PageSelection where
  "example_unanchored =
     selection (onContainerDragStart example_content_env (mouse (- 5) 10 example_paragraph)
                  (new_PageSelection NoneSel))"

text \<open>A click in the space below the last block.\<close>

definition example_click :: SelectionEvent where
  "example_click = mouse 30 500 example_group"

section \<open>What the handlers do\<close>

lemmas handler_defs =
  onContainerDragStart_def onContainerDragMove_def onContainerDragEnd_def
  onBlockDragStart_def onBlockDragMove_def onBlockDragEnd_def
  onNativeDragStart_def onNativeDragMove_def onNativeDragEnd_def
  onContainerDblClick_def onContainerMouseMove_def onContainerMouseOut_def
  resetStartRange_def clear_def returned_def thrown_def andThen_def

lemmas example_defs =
  example_content_env_def example_blank_env_def example_paragraph_env_def
  example_text_def example_paragraph_def example_group_def collapsed_def mouse_def
  new_PageSelection_def isBlankArea_def

lemma dragStart_outcome:
  "onContainerDragStart env e s =
     \<lparr>completion = Normal,
      selection = \<lparr>type = mode_of_start env e,
                   startRange = caretRangeFromPoint env (clientX e) (clientY e),
                   startPoint = Some \<lparr>point_x = clientX e, point_y = clientY e\<rparr>\<rparr>,
      emitted = (if isBlankArea env e then [ResetNativeSeletion None] else [])\<rparr>"
  by (simp add: handler_defs mode_of_start_def)

lemma dragMove_selection: "selection (onContainerDragMove env e s) = s"
  by (simp add: handler_defs Let_def split: option.splits)

lemma dragEnd_selection: "selection (onContainerDragEnd env e s) = new_PageSelection NoneSel"
  by (simp add: handler_defs new_PageSelection_def)

lemma dragEnd_completion: "completion (onContainerDragEnd env e s) = Normal"
  by (simp add: handler_defs)

lemma click_selection: "selection (onContainerClick env e s) = s\<lparr>type := NoneSel\<rparr>"
  by (simp add: onContainerClick_def returned_def Let_def split: option.splits)

lemma fst_run_Cons: "fst (run env (ev # evs) s) = fst (run env evs (selection (dispatch env ev s)))"
  by (simp add: Let_def split: prod.splits)

lemma snd_run_Cons:
  "snd (run env (ev # evs) s) = emitted (dispatch env ev s) @ snd (run env evs (selection (dispatch env ev s)))"
  by (simp add: Let_def split: prod.splits)

lemma run_tracks:
  "follows_protocol d evs \<Longrightarrow> tracks env d s \<Longrightarrow> tracks env (open_drag d evs) (fst (run env evs s))"
proof (induction evs arbitrary: d s)
  case Nil
  then show ?case by simp
next
  case (Cons ev evs)
  show ?case
  proof (cases ev)
    case (DragStart e)
    with Cons.prems have "follows_protocol (Some e) evs" by simp
    moreover have "tracks env (Some e) (selection (onContainerDragStart env e s))"
      by (simp add: tracks_def dragStart_outcome)
    ultimately show ?thesis
      using Cons.IH[of "Some e"] DragStart by (simp add: fst_run_Cons del: run.simps)
  next
    case (DragMove e)
    with Cons.prems show ?thesis
      using Cons.IH[of d s] by (simp add: fst_run_Cons dragMove_selection del: run.simps)
  next
    case (DragEnd e)
    with Cons.prems have "follows_protocol None evs" by simp
    moreover have "tracks env None (selection (onContainerDragEnd env e s))"
      by (simp add: tracks_def dragEnd_selection)
    ultimately show ?thesis
      using Cons.IH[of None] DragEnd by (simp add: fst_run_Cons del: run.simps)
  next
    case (Click e)
    with Cons.prems have d: "d = None" and p: "follows_protocol None evs" by auto
    with Cons.prems have "s = new_PageSelection NoneSel" by (simp add: tracks_def)
    then have "selection (onContainerClick env e s) = s"
      by (simp add: click_selection new_PageSelection_def)
    with Cons.prems d p show ?thesis
      using Cons.IH[of None s] Click by (simp add: fst_run_Cons del: run.simps)
  next
    case (DblClick e)
    with Cons.prems show ?thesis
      using Cons.IH[of d s] by (simp add: fst_run_Cons handler_defs del: run.simps)
  next
    case (MouseMove e)
    with Cons.prems show ?thesis
      using Cons.IH[of d s] by (simp add: fst_run_Cons handler_defs del: run.simps)
  next
    case (MouseOut e)
    with Cons.prems show ?thesis
      using Cons.IH[of d s] by (simp add: fst_run_Cons handler_defs del: run.simps)
  qed
qed

text \<open>
  C1. Whatever events arrive in the order of the protocol, the mode follows the drags: with
  no drag in progress (before the first start, and after every end) the state is the initial
  one, mode \<^verbatim>\<open>'none'\<close> and both anchors \<^verbatim>\<open>null\<close>; while a drag is in progress the mode is the
  one its start chose, \<^verbatim>\<open>'block'\<close> over a blank area and \<^verbatim>\<open>'native'\<close> otherwise, so never both.
  And the end handler leaves mode \<^verbatim>\<open>'none'\<close> and \<^verbatim>\<open>null\<close> anchors from every state.
\<close>

theorem mode_follows_drag_protocol:
  assumes "follows_protocol None evs"
  shows "(case open_drag None evs of
            None \<Rightarrow> fst (run env evs (new_PageSelection NoneSel)) = new_PageSelection NoneSel
          | Some st \<Rightarrow>
              type (fst (run env evs (new_PageSelection NoneSel)))
                = (if isBlankArea env st then Block else Native))
         \<and> selection (onContainerDragEnd env e s)
             = \<lparr>type = NoneSel, startRange = None, startPoint = None\<rparr>"
proof -
  have "tracks env None (new_PageSelection NoneSel)"
    by (simp add: tracks_def)
  with assms have "tracks env (open_drag None evs) (fst (run env evs (new_PageSelection NoneSel)))"
    by (rule run_tracks)
  then show ?thesis
    by (simp add: tracks_def mode_of_start_def dragEnd_selection new_PageSelection_def
        split: option.splits)
qed

theorem mode_follows_drag_protocol_witness:
  "follows_protocol None example_events
   \<and> open_drag None example_events = Some (mouse 5 5 example_paragraph)
   \<and> type (fst (run example_content_env example_events (new_PageSelection NoneSel))) = Native
   \<and> selection (onContainerDragEnd example_content_env (mouse 7 5 example_paragraph)
        (fst (run example_content_env example_events (new_PageSelection NoneSel))))
       = \<lparr>type = NoneSel, startRange = None, startPoint = None\<rparr>"
proof -
  have p: "follows_protocol None example_events"
    by (simp add: example_events_def drag_def)
  have d: "open_drag None example_events = Some (mouse 5 5 example_paragraph)"
    by (simp add: example_events_def drag_def)
  have c: "\<not> isBlankArea example_content_env (mouse 5 5 example_paragraph)"
    by (simp add: example_defs)
  show ?thesis
    using mode_follows_drag_protocol [OF p, of example_content_env "mouse 7 5 example_paragraph"
        "fst (run example_content_env example_events (new_PageSelection NoneSel))"] p d c
    by simp
qed

text \<open>
  C2. In block mode, with the anchor point \<open>P0\<close> captured, a drag move to \<open>P1\<close> publishes on
  \<^verbatim>\<open>updateSelectionRect\<close> exactly one rectangle, with left \<open>min(P0.x, P1.x)\<close>, top
  \<open>min(P0.y, P1.y)\<close>, width \<open>|P1.x - P0.x|\<close> and height \<open>|P1.y - P0.y|\<close> (of size zero when
  \<open>P0 = P1\<close>), and leaves the state as it is; the drag end publishes \<^verbatim>\<open>null\<close>.
\<close>

theorem block_drag_publishes_rectangle:
  assumes "type s = Block" and "startPoint s = Some p0"
  shows "onContainerDragMove env e s =
           \<lparr>completion = Normal, selection = s,
            emitted = [UpdateSelectionRect (Some
              (createSelectionRect \<lparr>point_x = clientX e, point_y = clientY e\<rparr> p0))]\<rparr>
         \<and> rect_left (createSelectionRect \<lparr>point_x = clientX e, point_y = clientY e\<rparr> p0)
             = min (point_x p0) (clientX e)
         \<and> rect_top (createSelectionRect \<lparr>point_x = clientX e, point_y = clientY e\<rparr> p0)
             = min (point_y p0) (clientY e)
         \<and> rect_width (createSelectionRect \<lparr>point_x = clientX e, point_y = clientY e\<rparr> p0)
             = \<bar>clientX e - point_x p0\<bar>
         \<and> rect_height (createSelectionRect \<lparr>point_x = clientX e, point_y = clientY e\<rparr> p0)
             = \<bar>clientY e - point_y p0\<bar>
         \<and> emitted (onContainerDragEnd env e' s) = [UpdateSelectionRect None]"
  using assms
  by (simp add: handler_defs createSelectionRect_def rect_left_def rect_top_def Let_def min_def)

theorem block_drag_publishes_rectangle_witness:
  "type example_block_state = Block
   \<and> startPoint example_block_state = Some \<lparr>point_x = 10, point_y = 10\<rparr>
   \<and> onContainerDragMove example_blank_env (mouse 50 80 example_group) example_block_state =
        \<lparr>completion = Normal, selection = example_block_state,
         emitted = [UpdateSelectionRect (Some
           \<lparr>rect_x = 10, rect_y = 10, rect_width = 40, rect_height = 70\<rparr>)]\<rparr>
   \<and> emitted (onContainerDragEnd example_blank_env (mouse 50 80 example_group) example_block_state)
       = [UpdateSelectionRect None]
   \<and> onContainerDragMove example_blank_env (mouse 10 10 example_group) example_block_state =
        \<lparr>completion = Normal, selection = example_block_state,
         emitted = [UpdateSelectionRect (Some
           \<lparr>rect_x = 10, rect_y = 10, rect_width = 0, rect_height = 0\<rparr>)]\<rparr>"
proof -
  have t: "type example_block_state = Block"
    by (simp add: example_block_state_def dragStart_outcome mode_of_start_def example_defs)
  have p: "startPoint example_block_state = Some \<lparr>point_x = 10, point_y = 10\<rparr>"
    by (simp add: example_block_state_def dragStart_outcome mouse_def)
  show ?thesis
    using block_drag_publishes_rectangle [OF t p, of example_blank_env "mouse 50 80 example_group"
        "mouse 50 80 example_group"]
      block_drag_publishes_rectangle [OF t p, of example_blank_env "mouse 10 10 example_group"
        "mouse 50 80 example_group"] t p
    by (simp add: createSelectionRect_def mouse_def)
qed

lemma run_append:
  "run env (xs @ ys) s =
     (fst (run env ys (fst (run env xs s))), snd (run env xs s) @ snd (run env ys (fst (run env xs s))))"
  by (induction xs arbitrary: s) (simp_all add: Let_def split: prod.splits)

lemma moves_keep_state: "fst (run env (map DragMove ms) s) = s"
proof (induction ms arbitrary: s)
  case Nil
  show ?case by simp
next
  case (Cons m ms)
  then show ?case by (simp add: fst_run_Cons dragMove_selection del: run.simps)
qed

lemma native_move_emits:
  "type s = Native \<Longrightarrow> ef \<in> set (emitted (onContainerDragMove env m s)) \<Longrightarrow> \<not> is_UpdateSelectionRect ef"
  by (auto simp: handler_defs Let_def split: option.splits)

lemma block_move_emits:
  "type s = Block \<Longrightarrow> ef \<in> set (emitted (onContainerDragMove env m s)) \<Longrightarrow> \<not> applies_range ef"
  by (auto simp: handler_defs Let_def split: option.splits)

lemma native_moves_emit:
  "type s = Native \<Longrightarrow> ef \<in> set (snd (run env (map DragMove ms) s)) \<Longrightarrow> \<not> is_UpdateSelectionRect ef"
proof (induction ms)
  case Nil
  then show ?case by simp
next
  case (Cons m ms)
  then show ?case
    using native_move_emits[of s ef env m]
    by (auto simp: snd_run_Cons dragMove_selection simp del: run.simps)
qed

lemma block_moves_emit:
  "type s = Block \<Longrightarrow> ef \<in> set (snd (run env (map DragMove ms) s)) \<Longrightarrow> \<not> applies_range ef"
proof (induction ms)
  case Nil
  then show ?case by simp
next
  case (Cons m ms)
  then show ?case
    using block_move_emits[of s ef env m]
    by (auto simp: snd_run_Cons dragMove_selection simp del: run.simps)
qed

lemma dragEnd_emitted:
  "emitted (onContainerDragEnd env e s) = (if type s = Block then [UpdateSelectionRect None] else [])"
  by (simp add: handler_defs)

lemma drag_emitted:
  "snd (run env (drag st ms e) s) =
     emitted (onContainerDragStart env st s)
     @ snd (run env (map DragMove ms) (selection (onContainerDragStart env st s)))
     @ emitted (onContainerDragEnd env e (selection (onContainerDragStart env st s)))"
  by (simp add: drag_def snd_run_Cons run_append moves_keep_state del: run.simps)
     (simp add: Let_def)

text \<open>
  C3. A drag whose start is not over a blank area is in native mode, and from its start to
  its end, both included, nothing is emitted on \<^verbatim>\<open>updateSelectionRect\<close>. A drag whose start is
  over a blank area is in block mode, and from its start to its end no range is applied as
  native selection: the one call of \<^verbatim>\<open>resetNativeSeletion\<close>, at the start, passes \<^verbatim>\<open>null\<close>.
\<close>

theorem drag_effects_match_mode:
  "(\<not> isBlankArea env st \<longrightarrow>
      type (selection (onContainerDragStart env st s)) = Native
      \<and> (\<forall>ef \<in> set (snd (run env (drag st ms e) s)). \<not> is_UpdateSelectionRect ef))
   \<and> (isBlankArea env st \<longrightarrow>
      type (selection (onContainerDragStart env st s)) = Block
      \<and> (\<forall>ef \<in> set (snd (run env (drag st ms e) s)). \<not> applies_range ef))"
proof (cases "isBlankArea env st")
  case True
  let ?s1 = "selection (onContainerDragStart env st s)"
  have t: "type ?s1 = Block" using True by (simp add: dragStart_outcome mode_of_start_def)
  have "\<not> applies_range ef" if "ef \<in> set (snd (run env (drag st ms e) s))" for ef
    using that t block_moves_emit[OF t, of ef env ms] True
    by (auto simp: drag_emitted dragEnd_emitted dragStart_outcome)
  with True t show ?thesis by blast
next
  case False
  let ?s1 = "selection (onContainerDragStart env st s)"
  have t: "type ?s1 = Native" using False by (simp add: dragStart_outcome mode_of_start_def)
  have "\<not> is_UpdateSelectionRect ef" if "ef \<in> set (snd (run env (drag st ms e) s))" for ef
    using that t native_moves_emit[OF t, of ef env ms] False
    by (auto simp: drag_emitted dragEnd_emitted dragStart_outcome)
  with False t show ?thesis by blast
qed

theorem drag_effects_match_mode_witness:
  "\<not> isBlankArea example_content_env (mouse 10 10 example_paragraph)
   \<and> snd (run example_content_env
        (drag (mouse 10 10 example_paragraph) [mouse 50 80 example_paragraph] (mouse 50 80 example_paragraph))
        (new_PageSelection NoneSel))
      = [ResetNativeSeletion (Some \<lparr>startContainer = example_text, startOffset = 10,
                                   endContainer = example_text, endOffset = 50\<rparr>)]
   \<and> isBlankArea example_blank_env (mouse 10 10 example_group)
   \<and> snd (run example_blank_env
        (drag (mouse 10 10 example_group) [mouse 50 80 example_group] (mouse 50 80 example_group))
        (new_PageSelection NoneSel))
      = [ResetNativeSeletion None,
         UpdateSelectionRect (Some \<lparr>rect_x = 10, rect_y = 10, rect_width = 40, rect_height = 70\<rparr>),
         UpdateSelectionRect None]"
  using drag_effects_match_mode [of example_content_env "mouse 10 10 example_paragraph"
      "new_PageSelection NoneSel" "[mouse 50 80 example_paragraph]" "mouse 50 80 example_paragraph"]
    drag_effects_match_mode [of example_blank_env "mouse 10 10 example_group"
      "new_PageSelection NoneSel" "[mouse 50 80 example_group]" "mouse 50 80 example_group"]
  by (simp add: drag_def handler_defs example_defs setStart_def isAfter_def createSelectionRect_def Let_def)

text \<open>
  C4, as the claim puts it, fails: with both anchors captured at \<open>(10, 10)\<close>, a second drag
  start at \<open>(20, 10)\<close>, with no \<^verbatim>\<open>clear()\<close> in between, returns normally, emits nothing and
  leaves the anchors of \<open>(20, 10)\<close>.
\<close>

theorem second_capture_overwrites_counterexample:
  "startPoint example_captured = Some \<lparr>point_x = 10, point_y = 10\<rparr>
   \<and> startRange example_captured = Some (collapsed example_text 10)
   \<and> onContainerDragStart example_content_env (mouse 20 10 example_paragraph) example_captured =
       \<lparr>completion = Normal,
        selection = \<lparr>type = Native, startRange = Some (collapsed example_text 20),
                     startPoint = Some \<lparr>point_x = 20, point_y = 10\<rparr>\<rparr>,
        emitted = []\<rparr>"
  by (simp add: example_captured_def handler_defs example_defs)

text \<open>
  C4, amended. \<^verbatim>\<open>resetStartRange\<close> has no guard: it overwrites both anchors with the hit test
  and the point of its event, whatever they were, so capturing twice is the same as capturing
  the second time only; a drag start always returns normally with the anchors of its own
  event. (A drag start over a blank area captures twice itself, in \<^verbatim>\<open>_onContainerDragStart\<close>
  and again in \<^verbatim>\<open>_onBlockDragStart\<close>.)
\<close>

theorem capture_always_overwrites:
  "resetStartRange env e s =
     \<lparr>type = type s,
      startRange = caretRangeFromPoint env (clientX e) (clientY e),
      startPoint = Some \<lparr>point_x = clientX e, point_y = clientY e\<rparr>\<rparr>
   \<and> resetStartRange env e' (resetStartRange env e s) = resetStartRange env e' s
   \<and> completion (onContainerDragStart env e s) = Normal
   \<and> startRange (selection (onContainerDragStart env e s))
       = caretRangeFromPoint env (clientX e) (clientY e)
   \<and> startPoint (selection (onContainerDragStart env e s))
       = Some \<lparr>point_x = clientX e, point_y = clientY e\<rparr>"
  by (simp add: dragStart_outcome resetStartRange_def)

text \<open>
  C5, as the claim puts it, fails: in the initial state, mode \<^verbatim>\<open>'none'\<close>, a drag move and a
  drag end both return normally, emit nothing and leave the state as it is.
\<close>

theorem move_and_end_without_start_counterexample:
  "type (new_PageSelection NoneSel) = NoneSel
   \<and> onContainerDragMove example_content_env (mouse 20 10 example_paragraph) (new_PageSelection NoneSel)
       = \<lparr>completion = Normal, selection = new_PageSelection NoneSel, emitted = []\<rparr>
   \<and> onContainerDragEnd example_content_env (mouse 20 10 example_paragraph) (new_PageSelection NoneSel)
       = \<lparr>completion = Normal, selection = new_PageSelection NoneSel, emitted = []\<rparr>"
  by (simp add: handler_defs new_PageSelection_def)

text \<open>
  C5, amended. In mode \<^verbatim>\<open>'none'\<close> a drag move is ignored: it returns normally, changes
  nothing and emits nothing. A drag end returns normally and emits nothing as well; it leaves
  mode \<^verbatim>\<open>'none'\<close> and clears both anchors.
\<close>

theorem move_and_end_without_start_ignored:
  assumes "type s = NoneSel"
  shows "onContainerDragMove env e s = \<lparr>completion = Normal, selection = s, emitted = []\<rparr>
         \<and> onContainerDragEnd env e s =
             \<lparr>completion = Normal,
              selection = \<lparr>type = NoneSel, startRange = None, startPoint = None\<rparr>,
              emitted = []\<rparr>"
  using assms by (simp add: handler_defs)

theorem move_and_end_without_start_ignored_witness:
  "type (new_PageSelection NoneSel) = NoneSel
   \<and> completion (onContainerDragMove example_blank_env (mouse 50 80 example_group)
        (new_PageSelection NoneSel)) = Normal
   \<and> emitted (onContainerDragMove example_blank_env (mouse 50 80 example_group)
        (new_PageSelection NoneSel)) = []
   \<and> completion (onContainerDragEnd example_blank_env (mouse 50 80 example_group)
        (new_PageSelection NoneSel)) = Normal
   \<and> emitted (onContainerDragEnd example_blank_env (mouse 50 80 example_group)
        (new_PageSelection NoneSel)) = []"
proof -
  have t: "type (new_PageSelection NoneSel) = NoneSel"
    by (simp add: new_PageSelection_def)
  show ?thesis
    using move_and_end_without_start_ignored [OF t, of example_blank_env "mouse 50 80 example_group"] t
    by simp
qed

text \<open>
  C7, as the claim puts it, fails in its first part: a click with shift in a state of mode
  \<^verbatim>\<open>'native'\<close> leaves mode \<^verbatim>\<open>'none'\<close>, for the mode is reset before the modifier is looked at.
\<close>

theorem shift_click_resets_mode_counterexample:
  "shift shift_click
   \<and> type example_captured = Native
   \<and> type (selection (onContainerClick example_content_env shift_click example_captured)) = NoneSel"
  by (simp add: shift_click_def example_captured_def dragStart_outcome mode_of_start_def
      click_selection example_defs)

text \<open>
  C7, amended. A click with shift returns early: the mode is \<^verbatim>\<open>'none'\<close> afterwards (so it is
  unchanged when it was \<^verbatim>\<open>'none'\<close> before, as after every finished drag), the anchors are
  untouched, nothing is applied or focused, and the outcome depends on no collaborator: no
  hit test, no classification.
\<close>

theorem shift_click_exits_early:
  assumes "shift e"
  shows "onContainerClick env e s =
           \<lparr>completion = Normal, selection = s\<lparr>type := NoneSel\<rparr>, emitted = []\<rparr>
         \<and> (type s = NoneSel \<longrightarrow> selection (onContainerClick env e s) = s)"
  using assms by (simp add: onContainerClick_def returned_def Let_def)

theorem shift_click_exits_early_witness:
  "shift shift_click
   \<and> onContainerClick example_content_env shift_click example_captured =
       \<lparr>completion = Normal,
        selection = \<lparr>type = NoneSel, startRange = Some (collapsed example_text 10),
                     startPoint = Some \<lparr>point_x = 10, point_y = 10\<rparr>\<rparr>,
        emitted = []\<rparr>
   \<and> onContainerClick example_content_env shift_click (new_PageSelection NoneSel) =
       \<lparr>completion = Normal, selection = new_PageSelection NoneSel, emitted = []\<rparr>"
proof -
  have h: "shift shift_click" by (simp add: shift_click_def)
  show ?thesis
    using shift_click_exits_early [OF h, of example_content_env example_captured]
      shift_click_exits_early [OF h, of example_content_env "new_PageSelection NoneSel"] h
    by (simp add: example_captured_def dragStart_outcome mode_of_start_def example_defs)
qed

text \<open>
  C10. When a drag starts over content and the hit test at the start finds no text position,
  the start returns normally, in native mode and with no anchor range; a drag move after it
  throws from \<^verbatim>\<open>assertExists\<close>, with the state unchanged (so every later move of the drag
  throws too) and nothing emitted.
\<close>

theorem native_move_without_anchor_throws:
  assumes "\<not> isBlankArea env st"
    and "caretRangeFromPoint env (clientX st) (clientY st) = None"
  shows "completion (onContainerDragStart env st s) = Normal
         \<and> type (selection (onContainerDragStart env st s)) = Native
         \<and> startRange (selection (onContainerDragStart env st s)) = None
         \<and> onContainerDragMove env m (selection (onContainerDragStart env st s)) =
             \<lparr>completion = Throw AssertExistsError,
              selection = selection (onContainerDragStart env st s),
              emitted = []\<rparr>"
  using assms by (simp add: handler_defs)

theorem native_move_without_anchor_throws_witness:
  "\<not> isBlankArea example_content_env (mouse (- 5) 10 example_paragraph)
   \<and> caretRangeFromPoint example_content_env (- 5) 10 = None
   \<and> completion (onContainerDragStart example_content_env (mouse (- 5) 10 example_paragraph)
        (new_PageSelection NoneSel)) = Normal
   \<and> completion (onContainerDragMove example_content_env (mouse 20 10 example_paragraph)
        example_unanchored) = Throw AssertExistsError"
proof -
  have b: "\<not> isBlankArea example_content_env (mouse (- 5) 10 example_paragraph)"
    by (simp add: example_defs)
  have c: "caretRangeFromPoint example_content_env (clientX (mouse (- 5) 10 example_paragraph))
             (clientY (mouse (- 5) 10 example_paragraph)) = None"
    by (simp add: example_defs)
  show ?thesis
    using native_move_without_anchor_throws [OF b c, of "new_PageSelection NoneSel"
        "mouse 20 10 example_paragraph"] b c
    by (simp add: example_unanchored_def mouse_def)
qed

text \<open>
  C6, as the claim puts it, fails for a drag backwards: anchored at offset 10 of the text, a
  move to offset 4 applies the range collapsed at offset 10, not the range from offset 10 to
  the resolved end at offset 4. The anchor lies after the resolved end, and \<^verbatim>\<open>setStart\<close> then
  moves the end along.
\<close>

theorem native_move_backwards_counterexample:
  "type example_captured = Native
   \<and> startRange example_captured = Some (collapsed example_text 10)
   \<and> caretRangeFromPoint example_content_env 4 10 = Some (collapsed example_text 4)
   \<and> emitted (onContainerDragMove example_content_env (mouse 4 10 example_paragraph) example_captured)
       = [ResetNativeSeletion (Some \<lparr>startContainer = example_text, startOffset = 10,
                                    endContainer = example_text, endOffset = 10\<rparr>)]
   \<and> emitted (onContainerDragMove example_content_env (mouse 4 10 example_paragraph) example_captured)
       \<noteq> [ResetNativeSeletion (Some \<lparr>startContainer = example_text, startOffset = 10,
                                    endContainer = example_text, endOffset = 4\<rparr>)]"
  by (simp add: example_captured_def handler_defs example_defs setStart_def isAfter_def)

text \<open>
  C6, amended. In a native-mode drag move with an anchor range and a hit test that finds a
  range, the range applied is the resolved one after \<^verbatim>\<open>setStart\<close> with the anchor's container
  and offset, and nothing else is done to it. Its start is the anchor's start. Its end is the
  resolved end, unless the anchor lies in another tree or after the resolved end: then the
  end is the anchor's start too, and the range is collapsed.
\<close>

theorem native_move_sets_start_only:
  assumes "type s = Native"
    and "startRange s = Some anchor"
    and "caretRangeFromPoint env (clientX e) (clientY e) = Some r"
  shows "onContainerDragMove env e s =
           \<lparr>completion = Normal, selection = s,
            emitted = [ResetNativeSeletion
              (Some (setStart env r (startContainer anchor) (startOffset anchor)))]\<rparr>
         \<and> startContainer (setStart env r (startContainer anchor) (startOffset anchor))
             = startContainer anchor
         \<and> startOffset (setStart env r (startContainer anchor) (startOffset anchor))
             = startOffset anchor
         \<and> (if rootOf env (startContainer r) \<noteq> rootOf env (startContainer anchor)
                \<or> isAfter env (startContainer anchor) (startOffset anchor) (endContainer r) (endOffset r)
             then endContainer (setStart env r (startContainer anchor) (startOffset anchor))
                    = startContainer anchor
                  \<and> endOffset (setStart env r (startContainer anchor) (startOffset anchor))
                    = startOffset anchor
             else endContainer (setStart env r (startContainer anchor) (startOffset anchor))
                    = endContainer r
                  \<and> endOffset (setStart env r (startContainer anchor) (startOffset anchor))
                    = endOffset r)"
  using assms by (simp add: handler_defs setStart_def)

theorem native_move_sets_start_only_witness:
  "type example_captured = Native
   \<and> startRange example_captured = Some (collapsed example_text 10)
   \<and> caretRangeFromPoint example_content_env 50 80 = Some (collapsed example_text 50)
   \<and> onContainerDragMove example_content_env (mouse 50 80 example_paragraph) example_captured =
        \<lparr>completion = Normal, selection = example_captured,
         emitted = [ResetNativeSeletion (Some \<lparr>startContainer = example_text, startOffset = 10,
                                      endContainer = example_text, endOffset = 50\<rparr>)]\<rparr>"
proof -
  have t: "type example_captured = Native"
    by (simp add: example_captured_def dragStart_outcome mode_of_start_def example_defs)
  have a: "startRange example_captured = Some (collapsed example_text 10)"
    by (simp add: example_captured_def dragStart_outcome example_defs)
  have h: "caretRangeFromPoint example_content_env (clientX (mouse 50 80 example_paragraph))
             (clientY (mouse 50 80 example_paragraph)) = Some (collapsed example_text 50)"
    by (simp add: example_defs)
  show ?thesis
    using native_move_sets_start_only [OF t a h] t a h
    by (simp add: mouse_def collapsed_def setStart_def isAfter_def example_content_env_def)
qed

text \<open>
  C8, as the claim puts it, fails in its second part: a click below the last block, the last
  node being a group, is not without effect. The range of the hit test has been applied as
  native selection before the classification.
\<close>

theorem click_below_last_block_counterexample:
  "caretRangeFromPoint example_blank_env 30 500 = Some (collapsed example_group 0)
   \<and> \<not> isBlankAreaBetweenBlocks example_group
   \<and> \<not> isBlankAreaBeforeFirstBlock example_group
   \<and> isBlankAreaAfterLastBlock example_group
   \<and> lastChild example_blank_env \<lparr>model_id = 0, flavour = ''page''\<rparr>
       = Some \<lparr>model_id = 1, flavour = ''group''\<rparr>
   \<and> emitted (onContainerClick example_blank_env example_click (new_PageSelection NoneSel))
       = [ResetNativeSeletion (Some (collapsed example_group 0))]
   \<and> emitted (onContainerClick example_blank_env example_click (new_PageSelection NoneSel)) \<noteq> []"
  by (simp add: onContainerClick_def example_click_def example_defs Let_def
      isBlankAreaBetweenBlocks_def isBlankAreaBeforeFirstBlock_def isBlankAreaAfterLastBlock_def
      instanceof_HTMLElement_def instanceof_HTMLInputElement_def string_includes_def)

text \<open>
  C8, amended. For a click that reaches the classification and lands below the last block
  (the container of the hit test's range is an HTML element with tag \<^verbatim>\<open>GROUP-BLOCK\<close>, and
  neither of the two other blank areas): the mode is \<^verbatim>\<open>'none'\<close>, the range of the hit test is
  applied as native selection, and then, when the last child of the root has flavour
  \<^verbatim>\<open>paragraph\<close> or \<^verbatim>\<open>list\<close>, \<^verbatim>\<open>focusRichTextByOffset\<close> is called with that node's element and
  the click's \<^verbatim>\<open>clientX\<close>; with any other flavour, or no root or no last child, nothing more
  is done.
\<close>

theorem click_below_last_block:
  assumes "tagName (target e) \<noteq> ''DEBUG-MENU''"
    and "\<not> instanceof_HTMLInputElement (target e)"
    and "\<not> shift e"
    and "caretRangeFromPoint env (clientX e) (clientY e) = Some r"
    and "instanceof_HTMLElement (startContainer r)"
    and "\<not> isBlankAreaBetweenBlocks (startContainer r)"
    and "\<not> isBlankAreaBeforeFirstBlock (startContainer r)"
    and "isBlankAreaAfterLastBlock (startContainer r)"
  shows "onContainerClick env e s =
           \<lparr>completion = Normal, selection = s\<lparr>type := NoneSel\<rparr>,
            emitted = ResetNativeSeletion (Some r) #
              (case (case store_root env of None \<Rightarrow> None | Some root \<Rightarrow> lastChild env root) of
                 None \<Rightarrow> []
               | Some child \<Rightarrow>
                   if flavour child = ''paragraph'' \<or> flavour child = ''list''
                   then [FocusRichTextByOffset (getBlockElementByModel env child) (clientX e)]
                   else [])\<rparr>"
  using assms by (simp add: onContainerClick_def Let_def split: option.splits)

theorem click_below_last_block_witness:
  "onContainerClick example_paragraph_env example_click (new_PageSelection NoneSel) =
     \<lparr>completion = Normal, selection = new_PageSelection NoneSel,
      emitted = [ResetNativeSeletion (Some (collapsed example_group 0)),
                 FocusRichTextByOffset example_paragraph 30]\<rparr>
   \<and> onContainerClick example_blank_env example_click (new_PageSelection NoneSel) =
     \<lparr>completion = Normal, selection = new_PageSelection NoneSel,
      emitted = [ResetNativeSeletion (Some (collapsed example_group 0))]\<rparr>"
proof -
  have h1: "tagName (target example_click) \<noteq> ''DEBUG-MENU''"
    by (simp add: example_click_def example_defs)
  have h2: "\<not> instanceof_HTMLInputElement (target example_click)"
    by (simp add: example_click_def example_defs instanceof_HTMLInputElement_def)
  have h3: "\<not> shift example_click"
    by (simp add: example_click_def example_defs)
  have h4: "caretRangeFromPoint example_paragraph_env (clientX example_click) (clientY example_click)
             = Some (collapsed example_group 0)"
    by (simp add: example_click_def example_defs)
  have h4b: "caretRangeFromPoint example_blank_env (clientX example_click) (clientY example_click)
             = Some (collapsed example_group 0)"
    by (simp add: example_click_def example_defs)
  have h5: "instanceof_HTMLElement (startContainer (collapsed example_group 0))"
    by (simp add: example_defs instanceof_HTMLElement_def)
  have h6: "\<not> isBlankAreaBetweenBlocks (startContainer (collapsed example_group 0))"
    by (simp add: example_defs isBlankAreaBetweenBlocks_def string_includes_def)
  have h7: "\<not> isBlankAreaBeforeFirstBlock (startContainer (collapsed example_group 0))"
    by (simp add: example_defs isBlankAreaBeforeFirstBlock_def string_includes_def)
  have h8: "isBlankAreaAfterLastBlock (startContainer (collapsed example_group 0))"
    by (simp add: example_defs isBlankAreaAfterLastBlock_def)
  show ?thesis
    using click_below_last_block [OF h1 h2 h3 h4 h5 h6 h7 h8, of "new_PageSelection NoneSel"]
      click_below_last_block [OF h1 h2 h3 h4b h5 h6 h7 h8, of "new_PageSelection NoneSel"]
    by (simp add: example_click_def example_defs)
qed

text \<open>
  A native-mode drag move reaches its hit test exactly when \<^verbatim>\<open>assertExists\<close> lets it pass,
  that is when it returns normally, that is when the drag has an anchor range.
\<close>

lemma native_move_reaches_hit_test:
  "type s = Native \<Longrightarrow>
     (completion (onContainerDragMove env e s) = Normal) = (startRange s \<noteq> None)"
  by (simp add: handler_defs split: option.splits)

text \<open>
  C9. In a native-mode drag move that gets as far as its hit test, when the hit test at the
  pointer finds no text position, \<^verbatim>\<open>resetNativeSeletion\<close> is called once, with \<^verbatim>\<open>null\<close>, and
  the state stays as it is: the native selection is cleared, not kept from the move before.
\<close>

theorem native_move_null_hit_test_passes_null:
  assumes "type s = Native"
    and "completion (onContainerDragMove env e s) = Normal"
    and "caretRangeFromPoint env (clientX e) (clientY e) = None"
  shows "onContainerDragMove env e s =
           \<lparr>completion = Normal, selection = s, emitted = [ResetNativeSeletion None]\<rparr>"
proof (cases "startRange s")
  case None
  with assms(1,2) show ?thesis by (simp add: native_move_reaches_hit_test)
next
  case (Some anchor)
  with assms(1,3) show ?thesis by (simp add: handler_defs)
qed

theorem native_move_null_hit_test_passes_null_witness:
  "type example_captured = Native
   \<and> completion (onContainerDragMove example_content_env (mouse (- 3) 10 example_paragraph)
        example_captured) = Normal
   \<and> caretRangeFromPoint example_content_env (- 3) 10 = None
   \<and> snd (run example_content_env
        [DragMove (mouse 50 10 example_paragraph), DragMove (mouse (- 3) 10 example_paragraph)]
        example_captured)
      = [ResetNativeSeletion (Some \<lparr>startContainer = example_text, startOffset = 10,
                                   endContainer = example_text, endOffset = 50\<rparr>),
         ResetNativeSeletion None]"
proof -
  have t: "type example_captured = Native"
    by (simp add: example_captured_def dragStart_outcome mode_of_start_def example_defs)
  have a: "startRange example_captured = Some (collapsed example_text 10)"
    by (simp add: example_captured_def dragStart_outcome example_defs)
  have c: "completion (onContainerDragMove example_content_env (mouse (- 3) 10 example_paragraph)
             example_captured) = Normal"
    using t a by (simp add: native_move_reaches_hit_test)
  have h: "caretRangeFromPoint example_content_env (clientX (mouse (- 3) 10 example_paragraph))
             (clientY (mouse (- 3) 10 example_paragraph)) = None"
    by (simp add: example_defs)
  have m: "onContainerDragMove example_content_env (mouse 50 10 example_paragraph) example_captured =
             \<lparr>completion = Normal, selection = example_captured,
              emitted = [ResetNativeSeletion (Some \<lparr>startContainer = example_text, startOffset = 10,
                                   endContainer = example_text, endOffset = 50\<rparr>)]\<rparr>"
    using t a by (simp add: handler_defs example_defs setStart_def isAfter_def)
  show ?thesis
    using native_move_null_hit_test_passes_null [OF t c h] t c h m
    by (simp add: mouse_def)
qed

end
